theory Spec2Isabelle
  imports Main
begin

section \<open>The browser environment\<close>

text \<open>
  The client runs either in a browser, where \<^verbatim>\<open>window\<close> is defined and carries
  \<^verbatim>\<open>localStorage\<close> and \<^verbatim>\<open>location\<close>, or during server rendering, where
  \<^verbatim>\<open>typeof window === "undefined"\<close>. Every access of the source to the storage is
  behind that test, so the environment is an optional browser. The storage is a
  map from keys to strings; writes to it are taken to succeed.
\<close>

record browser =
  localStorage :: "string \<rightharpoonup> string"
  location_href :: string

type_synonym env = "browser option"

definition getItem :: "browser \<Rightarrow> string \<Rightarrow> string option" where
  "getItem w k = localStorage w k"

definition setItem :: "browser \<Rightarrow> string \<Rightarrow> string \<Rightarrow> browser" where
  "setItem w k v = w\<lparr>localStorage := (localStorage w)(k \<mapsto> v)\<rparr>"

definition removeItem :: "browser \<Rightarrow> string \<Rightarrow> browser" where
  "removeItem w k = w\<lparr>localStorage := (localStorage w)(k := None)\<rparr>"

text \<open>What an observer of the environment sees: a persisted entry (none without a
  browser) and the address the browser was sent to.\<close>

definition persisted :: "env \<Rightarrow> string \<Rightarrow> string option" where
  "persisted e k = (case e of None \<Rightarrow> None | Some w \<Rightarrow> getItem w k)"

definition current_href :: "env \<Rightarrow> string option" where
  "current_href e = map_option location_href e"

section \<open>JavaScript values and the JSON codec of the platform\<close>

text \<open>
  The values that \<^verbatim>\<open>JSON.parse\<close> can return and that the hook keeps as
  \<^verbatim>\<open>user\<close>. TypeScript's \<^verbatim>\<open>User | null\<close> is erased at run time: whatever the
  parser returns is stored. An object is the list of its members in insertion order.

  JavaScript's numbers are doubles. Here a number is the decimal numeral that denotes it:
  an integer mantissa and the count of its digits that stand after the decimal point, so
  that \<open>Decimal 725 1\<close> is 72.5. Every finite double has such a numeral.
\<close>

datatype decimal = Decimal int nat

datatype json =
    JNull
  | JBool bool
  | JNum decimal
  | JStr string
  | JArr "json list"
  | JObj "(string \<times> json) list"

text \<open>Truthiness, as tested by \<^verbatim>\<open>if (v)\<close> and \<^verbatim>\<open>!v\<close>.\<close>

fun truthy :: "json \<Rightarrow> bool" where
  "truthy JNull = False"
| "truthy (JBool b) = b"
| "truthy (JNum (Decimal m k)) = (m \<noteq> 0)"
| "truthy (JStr s) = (s \<noteq> [])"
| "truthy (JArr xs) = True"
| "truthy (JObj ms) = True"

text \<open>Property read \<^verbatim>\<open>v.k\<close> on a value that is not \<^verbatim>\<open>null\<close>; \<open>None\<close> is
  \<^verbatim>\<open>undefined\<close>. Only an object has members of its own.\<close>

fun get_prop :: "json \<Rightarrow> string \<Rightarrow> json option" where
  "get_prop (JObj ms) k = map_of ms k"
| "get_prop v k = None"

abbreviation dquote :: char where "dquote \<equiv> CHR 0x22"
abbreviation backslash :: char where "backslash \<equiv> CHR 0x5C"

subsection \<open>JSON.stringify\<close>

definition digit_char :: "nat \<Rightarrow> char" where
  "digit_char d = char_of (48 + d)"

function show_nat :: "nat \<Rightarrow> string" where
  "show_nat n = (if n < 10 then [digit_char n] else show_nat (n div 10) @ [digit_char (n mod 10)])"
  by pat_completeness auto
termination
  by (relation "measure id") auto

declare show_nat.simps [simp del]

text \<open>The last \<open>k\<close> decimal digits of a number, with leading zeros.\<close>

fun pad_digits :: "nat \<Rightarrow> nat \<Rightarrow> string" where
  "pad_digits 0 x = []"
| "pad_digits (Suc k) x = pad_digits k (x div 10) @ [digit_char (x mod 10)]"

text \<open>A number is written in positional notation: sign, integer part, and the fraction
  digits after a point when there are any. (The platform turns to the exponent form for
  very large and very small numbers; both forms denote the same number, and the parser
  below reads both.)\<close>

fun show_decimal :: "decimal \<Rightarrow> string" where
  "show_decimal (Decimal m k) =
     (if m < 0 then ''-'' else []) @ show_nat (nat \<bar>m\<bar> div 10 ^ k)
       @ (if k = 0 then [] else CHR ''.'' # pad_digits k (nat \<bar>m\<bar> mod 10 ^ k))"

definition hex_char :: "nat \<Rightarrow> char" where
  "hex_char d = (if d < 10 then char_of (48 + d) else char_of (87 + d))"

text \<open>The escapes of \<^verbatim>\<open>JSON.stringify\<close>: the quote, the backslash, the five short
  escapes, and the six-character escape with lower-case hexadecimal digits for the other
  control characters.\<close>

definition escape_char :: "char \<Rightarrow> string" where
  "escape_char c =
     (if c = dquote then [backslash, dquote]
      else if c = backslash then [backslash, backslash]
      else if c = CHR 0x08 then [backslash, CHR ''b'']
      else if c = CHR 0x0C then [backslash, CHR ''f'']
      else if c = CHR 0x0A then [backslash, CHR ''n'']
      else if c = CHR 0x0D then [backslash, CHR ''r'']
      else if c = CHR 0x09 then [backslash, CHR ''t'']
      else if (of_char c :: nat) < 32
        then [backslash, CHR ''u'', CHR ''0'', CHR ''0'',
              hex_char ((of_char c :: nat) div 16), hex_char ((of_char c :: nat) mod 16)]
      else [c])"

definition quote :: "string \<Rightarrow> string" where
  "quote s = dquote # concat (map escape_char s) @ [dquote]"

fun intercalate :: "string \<Rightarrow> string list \<Rightarrow> string" where
  "intercalate sep [] = []"
| "intercalate sep [x] = x"
| "intercalate sep (x # y # ys) = x @ sep @ intercalate sep (y # ys)"

fun JSON_stringify :: "json \<Rightarrow> string" where
  "JSON_stringify JNull = ''null''"
| "JSON_stringify (JBool b) = (if b then ''true'' else ''false'')"
| "JSON_stringify (JNum d) = show_decimal d"
| "JSON_stringify (JStr s) = quote s"
| "JSON_stringify (JArr xs) = ''['' @ intercalate '','' (map JSON_stringify xs) @ '']''"
| "JSON_stringify (JObj ms) =
     ''{'' @ intercalate '','' (map (\<lambda>m. quote (fst m) @ '':'' @ JSON_stringify (snd m)) ms) @ ''}''"

subsection \<open>JSON.parse\<close>

text \<open>
  The parser is a tokenizer followed by a pushdown recogniser over the tokens. It fails
  (\<open>None\<close>, the \<^verbatim>\<open>SyntaxError\<close> of the platform) on any text outside the JSON
  grammar. Characters are bytes here, so an escape of four hexadecimal digits is read for
  code units below 256 only.
\<close>

definition is_digit :: "char \<Rightarrow> bool" where
  "is_digit c = (48 \<le> (of_char c :: nat) \<and> (of_char c :: nat) \<le> 57)"

definition digit_val :: "char \<Rightarrow> nat" where
  "digit_val c = of_char c - 48"

datatype token = TLBrace | TRBrace | TLBrack | TRBrack | TColon | TComma | TAtom json

definition hex_val :: "char \<Rightarrow> nat option" where
  "hex_val c =
     (let n = (of_char c :: nat) in
      if 48 \<le> n \<and> n \<le> 57 then Some (n - 48)
      else if 97 \<le> n \<and> n \<le> 102 then Some (n - 87)
      else if 65 \<le> n \<and> n \<le> 70 then Some (n - 55)
      else None)"

definition hex4 :: "char \<Rightarrow> char \<Rightarrow> char \<Rightarrow> char \<Rightarrow> nat option" where
  "hex4 a b c d =
     (case (hex_val a, hex_val b, hex_val c, hex_val d) of
        (Some x, Some y, Some z, Some w) \<Rightarrow> Some (((x * 16 + y) * 16 + z) * 16 + w)
      | _ \<Rightarrow> None)"

definition unescape :: "char \<Rightarrow> char option" where
  "unescape e =
     (if e = dquote then Some dquote
      else if e = backslash then Some backslash
      else if e = CHR ''/'' then Some CHR ''/''
      else if e = CHR ''b'' then Some (CHR 0x08)
      else if e = CHR ''f'' then Some (CHR 0x0C)
      else if e = CHR ''n'' then Some (CHR 0x0A)
      else if e = CHR ''r'' then Some (CHR 0x0D)
      else if e = CHR ''t'' then Some (CHR 0x09)
      else None)"

fun lex_char :: "string \<Rightarrow> (char \<times> string) option" where
  "lex_char [] = None"
| "lex_char (c # cs) =
     (if c = backslash then
        (case cs of
           [] \<Rightarrow> None
         | e # cs1 \<Rightarrow>
             if e = CHR ''u'' then
               (case cs1 of
                  h1 # h2 # h3 # h4 # cs2 \<Rightarrow>
                    (case hex4 h1 h2 h3 h4 of
                       None \<Rightarrow> None
                     | Some n \<Rightarrow> if n < 256 then Some (char_of n, cs2) else None)
                | _ \<Rightarrow> None)
             else map_option (\<lambda>ch. (ch, cs1)) (unescape e))
      else if (of_char c :: nat) < 32 then None
      else Some (c, cs))"

lemma lex_char_shorter: "lex_char cs = Some (ch, r) \<Longrightarrow> length r < length cs"
  by (cases cs) (auto split: if_splits list.splits option.splits)

function lex_string :: "string \<Rightarrow> (string \<times> string) option" where
  "lex_string [] = None"
| "lex_string (c # cs) =
     (if c = dquote then Some ([], cs)
      else
        (case lex_char (c # cs) of
           None \<Rightarrow> None
         | Some (ch, rest) \<Rightarrow> map_option (apfst (Cons ch)) (lex_string rest)))"
  by pat_completeness auto
termination
  by (relation "measure length") (auto dest: lex_char_shorter simp del: lex_char.simps)

definition nat_of_digits :: "string \<Rightarrow> nat" where
  "nat_of_digits ds = foldl (\<lambda>a c. 10 * a + digit_val c) 0 ds"

text \<open>The parts of a numeral after its integer digits: an optional fraction (a point and
  at least one digit) and an optional exponent (e or E, an optional sign, at least one
  digit).\<close>

definition lex_fraction :: "string \<Rightarrow> (string \<times> string) option" where
  "lex_fraction r =
     (case r of
        [] \<Rightarrow> Some ([], r)
      | c # r' \<Rightarrow>
          if c = CHR ''.'' then
            (let fs = takeWhile is_digit r'
             in if fs = [] then None else Some (fs, dropWhile is_digit r'))
          else Some ([], r))"

definition lex_exponent :: "string \<Rightarrow> (int \<times> string) option" where
  "lex_exponent r =
     (case r of
        [] \<Rightarrow> Some (0, r)
      | c # r' \<Rightarrow>
          if c = CHR ''e'' \<or> c = CHR ''E'' then
            (let neg = (r' \<noteq> [] \<and> hd r' = CHR ''-'');
                 body = (if r' \<noteq> [] \<and> (hd r' = CHR ''-'' \<or> hd r' = CHR ''+'') then tl r' else r');
                 es = takeWhile is_digit body
             in if es = [] then None
                else Some (if neg then - int (nat_of_digits es) else int (nat_of_digits es),
                           dropWhile is_digit body))
          else Some (0, r))"

text \<open>The number with the given sign and digits, \<open>scale\<close> of which stand after the
  point; a negative scale appends zeros.\<close>

definition make_decimal :: "bool \<Rightarrow> nat \<Rightarrow> int \<Rightarrow> decimal" where
  "make_decimal neg mant scale =
     (let m = (if neg then - int mant else int mant)
      in if 0 \<le> scale then Decimal m (nat scale) else Decimal (m * 10 ^ nat (- scale)) 0)"

definition lex_number :: "string \<Rightarrow> (decimal \<times> string) option" where
  "lex_number cs =
     (let neg = (cs \<noteq> [] \<and> hd cs = CHR ''-'');
          body = (if neg then tl cs else cs);
          ds = takeWhile is_digit body;
          r1 = dropWhile is_digit body
      in if ds = [] then None
         else if hd ds = CHR ''0'' \<and> 1 < length ds then None
         else
           (case lex_fraction r1 of
              None \<Rightarrow> None
            | Some (fs, r2) \<Rightarrow>
                (case lex_exponent r2 of
                   None \<Rightarrow> None
                 | Some (ex, r3) \<Rightarrow>
                     Some (make_decimal neg (nat_of_digits (ds @ fs)) (int (length fs) - ex), r3))))"

definition strip_prefix :: "string \<Rightarrow> string \<Rightarrow> string option" where
  "strip_prefix p s = (if take (length p) s = p then Some (drop (length p) s) else None)"



definition is_ws :: "char \<Rightarrow> bool" where
  "is_ws c = (c = CHR '' '' \<or> c = CHR 0x09 \<or> c = CHR 0x0A \<or> c = CHR 0x0D)"

lemma lex_string_shorter: "lex_string cs = Some (s, r) \<Longrightarrow> length r < length cs"
proof (induction cs arbitrary: s rule: lex_string.induct)
  case 1
  then show ?case by simp
next
  case (2 c cs)
  show ?case
  proof (cases "c = dquote")
    case True
    with "2.prems" show ?thesis by simp
  next
    case False
    with "2.prems" obtain ch rest s' where
      step: "lex_char (c # cs) = Some (ch, rest)" and rec: "lex_string rest = Some (s', r)"
      by (auto split: option.splits)
    from "2.IH" [OF False step refl rec] lex_char_shorter [OF step]
    show ?thesis by simp
  qed
qed

lemma dropWhile_shorter: "takeWhile P xs \<noteq> [] \<Longrightarrow> length (dropWhile P xs) < length xs"
  by (induction xs) (auto simp: le_imp_less_Suc length_dropWhile_le split: if_splits)

lemma lex_fraction_length: "lex_fraction r = Some (fs, r2) \<Longrightarrow> length r2 \<le> length r"
  by (cases r) (auto simp: lex_fraction_def Let_def length_dropWhile_le le_SucI split: if_splits)

lemma lex_exponent_length: "lex_exponent r = Some (ex, r3) \<Longrightarrow> length r3 \<le> length r"
proof (cases r)
  case Nil
  assume "lex_exponent r = Some (ex, r3)"
  with Nil show ?thesis by (simp add: lex_exponent_def)
next
  case (Cons c r')
  assume a: "lex_exponent r = Some (ex, r3)"
  define body where "body = (if r' \<noteq> [] \<and> (hd r' = CHR ''-'' \<or> hd r' = CHR ''+'') then tl r' else r')"
  have b: "length body \<le> length r'"
    by (simp add: body_def)
  from a Cons have "r3 = r \<or> r3 = dropWhile is_digit body"
    by (auto simp: lex_exponent_def Let_def body_def split: if_splits)
  moreover have "length (dropWhile is_digit body) \<le> length body"
    by (rule length_dropWhile_le)
  ultimately show ?thesis
    using b Cons by auto
qed

lemma lex_number_shorter:
  assumes "lex_number cs = Some (n, r)"
  shows "length r < length cs"
proof -
  define body where "body = (if cs \<noteq> [] \<and> hd cs = CHR ''-'' then tl cs else cs)"
  from assms obtain fs r2 ex where
    ne: "takeWhile is_digit body \<noteq> []" and
    f: "lex_fraction (dropWhile is_digit body) = Some (fs, r2)" and
    x: "lex_exponent r2 = Some (ex, r)"
    by (auto simp: lex_number_def Let_def body_def split: if_splits option.splits)
  have "length body \<le> length cs"
    by (simp add: body_def)
  with dropWhile_shorter [OF ne] lex_fraction_length [OF f] lex_exponent_length [OF x]
  show ?thesis by simp
qed

lemma strip_prefix_shorter: "strip_prefix p s = Some r \<Longrightarrow> length r \<le> length s"
  by (auto simp: strip_prefix_def split: if_splits)

function tokenize :: "string \<Rightarrow> token list option" where
  "tokenize [] = Some []"
| "tokenize (c # cs) =
     (if is_ws c then tokenize cs
      else if c = CHR ''{'' then map_option (Cons TLBrace) (tokenize cs)
      else if c = CHR ''}'' then map_option (Cons TRBrace) (tokenize cs)
      else if c = CHR ''['' then map_option (Cons TLBrack) (tokenize cs)
      else if c = CHR '']'' then map_option (Cons TRBrack) (tokenize cs)
      else if c = CHR '':'' then map_option (Cons TColon) (tokenize cs)
      else if c = CHR '','' then map_option (Cons TComma) (tokenize cs)
      else if c = dquote then
        (case lex_string cs of
           None \<Rightarrow> None
         | Some (s, rest) \<Rightarrow> map_option (Cons (TAtom (JStr s))) (tokenize rest))
      else if c = CHR ''-'' \<or> is_digit c then
        (case lex_number (c # cs) of
           None \<Rightarrow> None
         | Some (n, rest) \<Rightarrow> map_option (Cons (TAtom (JNum n))) (tokenize rest))
      else if c = CHR ''t'' then
        (case strip_prefix ''rue'' cs of
           None \<Rightarrow> None
         | Some rest \<Rightarrow> map_option (Cons (TAtom (JBool True))) (tokenize rest))
      else if c = CHR ''f'' then
        (case strip_prefix ''alse'' cs of
           None \<Rightarrow> None
         | Some rest \<Rightarrow> map_option (Cons (TAtom (JBool False))) (tokenize rest))
      else if c = CHR ''n'' then
        (case strip_prefix ''ull'' cs of
           None \<Rightarrow> None
         | Some rest \<Rightarrow> map_option (Cons (TAtom JNull)) (tokenize rest))
      else None)"
  by pat_completeness auto
termination
proof (relation "measure length", goal_cases)
  case 1
  show ?case by simp
next
  case (9 c cs x2 s rest)
  then show ?case using lex_string_shorter [of cs s rest] by simp
next
  case (10 c cs x2 n rest)
  then show ?case using lex_number_shorter [of "c # cs" n rest] by simp
next
  case (11 c cs rest)
  then show ?case using strip_prefix_shorter [of "''rue''" cs rest] by simp
next
  case (12 c cs rest)
  then show ?case using strip_prefix_shorter [of "''alse''" cs rest] by simp
next
  case (13 c cs rest)
  then show ?case using strip_prefix_shorter [of "''ull''" cs rest] by simp
qed simp_all

datatype expect = ExpValue | ExpValueOrEnd | ExpKeyOrEnd | ExpKey | ExpColon | ExpCommaOrEnd

datatype frame = ArrF "json list" | ObjF "(string \<times> json) list" string

datatype pstate = Parsing expect "frame list" | Done json

fun obj_put :: "string \<Rightarrow> json \<Rightarrow> (string \<times> json) list \<Rightarrow> (string \<times> json) list" where
  "obj_put k v [] = [(k, v)]"
| "obj_put k v (m # ms) = (if fst m = k then (k, v) # ms else m # obj_put k v ms)"

fun push_value :: "json \<Rightarrow> frame list \<Rightarrow> pstate" where
  "push_value v [] = Done v"
| "push_value v (ArrF xs # st) = Parsing ExpCommaOrEnd (ArrF (xs @ [v]) # st)"
| "push_value v (ObjF ms k # st) = Parsing ExpCommaOrEnd (ObjF (obj_put k v ms) k # st)"

fun parse_step :: "pstate \<Rightarrow> token \<Rightarrow> pstate option" where
  "parse_step (Done v) t = None"
| "parse_step (Parsing ex st) (TAtom v) =
     (if ex = ExpValue \<or> ex = ExpValueOrEnd then Some (push_value v st)
      else if ex = ExpKeyOrEnd \<or> ex = ExpKey then
        (case (v, st) of
           (JStr k, ObjF ms k0 # st') \<Rightarrow> Some (Parsing ExpColon (ObjF ms k # st'))
         | _ \<Rightarrow> None)
      else None)"
| "parse_step (Parsing ex st) TLBrack =
     (if ex = ExpValue \<or> ex = ExpValueOrEnd then Some (Parsing ExpValueOrEnd (ArrF [] # st))
      else None)"
| "parse_step (Parsing ex st) TLBrace =
     (if ex = ExpValue \<or> ex = ExpValueOrEnd then Some (Parsing ExpKeyOrEnd (ObjF [] [] # st))
      else None)"
| "parse_step (Parsing ex st) TRBrack =
     (if ex = ExpValueOrEnd \<or> ex = ExpCommaOrEnd then
        (case st of ArrF xs # st' \<Rightarrow> Some (push_value (JArr xs) st') | _ \<Rightarrow> None)
      else None)"
| "parse_step (Parsing ex st) TRBrace =
     (if ex = ExpKeyOrEnd \<or> ex = ExpCommaOrEnd then
        (case st of ObjF ms k # st' \<Rightarrow> Some (push_value (JObj ms) st') | _ \<Rightarrow> None)
      else None)"
| "parse_step (Parsing ex st) TColon =
     (if ex = ExpColon then Some (Parsing ExpValue st) else None)"
| "parse_step (Parsing ex st) TComma =
     (if ex = ExpCommaOrEnd then
        (case st of
           ArrF xs # st' \<Rightarrow> Some (Parsing ExpValue st)
         | ObjF ms k # st' \<Rightarrow> Some (Parsing ExpKey st)
         | [] \<Rightarrow> None)
      else None)"

fun parse_tokens :: "pstate \<Rightarrow> token list \<Rightarrow> pstate option" where
  "parse_tokens s [] = Some s"
| "parse_tokens s (t # ts) =
     (case parse_step s t of None \<Rightarrow> None | Some s' \<Rightarrow> parse_tokens s' ts)"

definition JSON_parse :: "string \<Rightarrow> json option" where
  "JSON_parse text =
     (case tokenize text of
        None \<Rightarrow> None
      | Some ts \<Rightarrow>
          (case parse_tokens (Parsing ExpValue []) ts of
             Some (Done v) \<Rightarrow> Some v
           | _ \<Rightarrow> None))"

section \<open>The request pipeline (lib/api.ts)\<close>

text \<open>
  An axios request configuration, reduced to the fields the client sets: method, path,
  headers and payload. The payload type is left open.
\<close>

record 'd request_config =
  req_method :: string
  req_url :: string
  req_headers :: "string \<rightharpoonup> string"
  req_data :: 'd

text \<open>
  \<^verbatim>\<open>api.interceptors.request.use((config) => { if (typeof window !== "undefined") {
     const token = localStorage.getItem("token");
     if (token) config.headers.Authorization = `Bearer ${token}`; } return config; })\<close>
  The test \<^verbatim>\<open>if (token)\<close> is truthiness: \<^verbatim>\<open>null\<close> and the empty string both
  fail it.
\<close>

definition request_interceptor :: "env \<Rightarrow> 'd request_config \<Rightarrow> 'd request_config" where
  "request_interceptor e config =
     (case e of
        None \<Rightarrow> config
      | Some w \<Rightarrow>
          (case getItem w ''token'' of
             None \<Rightarrow> config
           | Some token \<Rightarrow>
               if token \<noteq> []
               then config\<lparr>req_headers := (req_headers config)(''Authorization'' \<mapsto> ''Bearer '' @ token)\<rparr>
               else config))"

text \<open>
  A response, the error axios rejects with (\<^verbatim>\<open>err.response\<close> is missing when no
  response arrived), and the two ways a call can settle.
\<close>

record response =
  resp_status :: int
  resp_data :: string

record axios_error =
  err_message :: string
  err_response :: "response option"

datatype outcome = Fulfilled response | Rejected axios_error

text \<open>
  How axios settles a response that arrived. The instance \<^verbatim>\<open>api\<close> is created with a
  base URL and a content type only, so the library's default \<^verbatim>\<open>validateStatus\<close>
  applies: a status from 200 to 299 (or a missing status, read as 0) fulfils the call,
  any other status rejects it with an error that carries the response.
\<close>

definition settle :: "response \<Rightarrow> outcome" where
  "settle r =
     (if resp_status r = 0 \<or> (200 \<le> resp_status r \<and> resp_status r < 300)
      then Fulfilled r
      else Rejected \<lparr>err_message = ''Request failed'', err_response = Some r\<rparr>)"

text \<open>
  \<^verbatim>\<open>api.interceptors.response.use((r) => r, (err) => {
     if (err.response?.status === 401 && typeof window !== "undefined") {
       localStorage.removeItem("token"); localStorage.removeItem("user");
       window.location.href = "/login"; }
     return Promise.reject(err); })\<close>
\<close>

definition response_interceptor :: "env \<Rightarrow> outcome \<Rightarrow> env \<times> outcome" where
  "response_interceptor e out =
     (case out of
        Fulfilled r \<Rightarrow> (e, Fulfilled r)
      | Rejected err \<Rightarrow>
          (case e of
             None \<Rightarrow> (None, Rejected err)
           | Some w \<Rightarrow>
               if map_option resp_status (err_response err) = Some 401
               then (Some ((removeItem (removeItem w ''token'') ''user'')\<lparr>location_href := ''/login''\<rparr>),
                     Rejected err)
               else (Some w, Rejected err)))"

subsection \<open>workers.createProfile\<close>

text \<open>
  An argument as the function receives it at run time: the declared types are erased, so
  the parameter \<^verbatim>\<open>price\<close> holds whatever the caller passed, and a parameter the caller
  left out is \<^verbatim>\<open>undefined\<close>.
\<close>

datatype js_file = File string

datatype js_arg = Undefined | Number decimal | FileObject js_file

text \<open>\<^verbatim>\<open>String(v)\<close> and the truthiness of an argument.\<close>

fun js_String :: "js_arg \<Rightarrow> string" where
  "js_String Undefined = ''undefined''"
| "js_String (Number n) = show_decimal n"
| "js_String (FileObject f) = ''[object File]''"

fun arg_truthy :: "js_arg \<Rightarrow> bool" where
  "arg_truthy Undefined = False"
| "arg_truthy (Number (Decimal m k)) = (m \<noteq> 0)"
| "arg_truthy (FileObject f) = True"

text \<open>An entry of a \<^verbatim>\<open>FormData\<close>: a file is kept as a file, any other value is
  appended as its string.\<close>

datatype form_value = FormText string | FormFile js_file

fun form_entry :: "js_arg \<Rightarrow> form_value" where
  "form_entry (FileObject f) = FormFile f"
| "form_entry v = FormText (js_String v)"

type_synonym form_data = "(string \<times> form_value) list"

text \<open>\<^verbatim>\<open>api.post(url, data, { headers })\<close>: the headers of the call are laid over the
  default \<^verbatim>\<open>Content-Type: application/json\<close> of the instance.\<close>

definition api_post :: "string \<Rightarrow> 'd \<Rightarrow> (string \<rightharpoonup> string) \<Rightarrow> 'd request_config" where
  "api_post path payload hdrs =
     \<lparr>req_method = ''post'', req_url = path,
      req_headers = [''Content-Type'' \<mapsto> ''application/json''] ++ hdrs,
      req_data = payload\<rparr>"

text \<open>
  \<^verbatim>\<open>createProfile: (serviceType: string, price: number, idDocument?: File) => {
     const form = new FormData();
     form.append("service_type", serviceType);
     form.append("price", String(price));
     if (idDocument) form.append("id_document", idDocument);
     return api.post("/api/workers/profile", form,
                     { headers: { "Content-Type": "multipart/form-data" } }); }\<close>
\<close>

definition workers_createProfile :: "string \<Rightarrow> js_arg \<Rightarrow> js_arg \<Rightarrow> form_data request_config" where
  "workers_createProfile serviceType price idDocument =
     (let form = [(''service_type'', FormText serviceType), (''price'', FormText (js_String price))];
          form = (if arg_truthy idDocument then form @ [(''id_document'', form_entry idDocument)] else form)
      in api_post ''/api/workers/profile'' form [''Content-Type'' \<mapsto> ''multipart/form-data''])"

section \<open>The session store (the hook useAuth, imported as @/lib/auth)\<close>

text \<open>The \<^verbatim>\<open>User\<close> interface of lib/api.ts and the object that holds one. The
  field \<^verbatim>\<open>id\<close> is \<open>uid\<close> in the record; the object keeps the key "id".\<close>

datatype UserRole = Customer | Worker | Tutor

fun role_name :: "UserRole \<Rightarrow> string" where
  "role_name Customer = ''customer''"
| "role_name Worker = ''worker''"
| "role_name Tutor = ''tutor''"

record User =
  uid :: decimal
  name :: string
  email :: string
  role :: UserRole
  trust_score :: decimal
  created_at :: string

definition user_value :: "User \<Rightarrow> json" where
  "user_value u = JObj
     [(''id'', JNum (uid u)),
      (''name'', JStr (name u)),
      (''email'', JStr (email u)),
      (''role'', JStr (role_name (role u))),
      (''trust_score'', JNum (trust_score u)),
      (''created_at'', JStr (created_at u))]"

text \<open>
  The two state cells of one call of the hook:
  \<^verbatim>\<open>const [user, setUser] = useState<User | null>(null);
  const [loading, setLoading] = useState(true);\<close>
  Every component that calls \<^verbatim>\<open>useAuth()\<close> owns a pair of its own.
\<close>

record auth_state =
  user :: json
  loading :: bool

definition useAuth_initial :: auth_state where
  "useAuth_initial = \<lparr>user = JNull, loading = True\<rparr>"

text \<open>
  The mount effect:
  \<^verbatim>\<open>const stored = typeof window !== "undefined" ? localStorage.getItem("user") : null;
  if (stored) { try { setUser(JSON.parse(stored)); } catch { setUser(null); } }
  setLoading(false);\<close>
  The parser is a parameter: \<open>None\<close> stands for the exception it throws.
\<close>

definition useAuth_effect :: "(string \<Rightarrow> json option) \<Rightarrow> env \<Rightarrow> auth_state \<Rightarrow> auth_state" where
  "useAuth_effect parse e h =
     (let stored = (case e of None \<Rightarrow> None | Some w \<Rightarrow> getItem w ''user'');
          h1 = (case stored of
                  None \<Rightarrow> h
                | Some s \<Rightarrow>
                    if s \<noteq> []
                    then (case parse s of Some v \<Rightarrow> h\<lparr>user := v\<rparr> | None \<Rightarrow> h\<lparr>user := JNull\<rparr>)
                    else h)
      in h1\<lparr>loading := False\<rparr>)"

text \<open>
  \<^verbatim>\<open>const setUserAndToken = (u: User, token: string) => { setUser(u);
     if (typeof window !== "undefined") {
       localStorage.setItem("user", JSON.stringify(u));
       localStorage.setItem("token", token); } };\<close>
\<close>

definition setUserAndToken ::
  "(json \<Rightarrow> string) \<Rightarrow> json \<Rightarrow> string \<Rightarrow> auth_state \<times> env \<Rightarrow> auth_state \<times> env" where
  "setUserAndToken stringify u token s =
     (case s of (h, e) \<Rightarrow>
        (h\<lparr>user := u\<rparr>,
         case e of
           None \<Rightarrow> None
         | Some w \<Rightarrow> Some (setItem (setItem w ''user'' (stringify u)) ''token'' token)))"

text \<open>
  \<^verbatim>\<open>const logout = () => { setUser(null);
     if (typeof window !== "undefined") {
       localStorage.removeItem("user"); localStorage.removeItem("token"); } };\<close>
\<close>

definition logout :: "auth_state \<times> env \<Rightarrow> auth_state \<times> env" where
  "logout s =
     (case s of (h, e) \<Rightarrow>
        (h\<lparr>user := JNull\<rparr>,
         case e of
           None \<Rightarrow> None
         | Some w \<Rightarrow> Some (removeItem (removeItem w ''user'') ''token'')))"

subsection \<open>Several consumers over one storage\<close>



subsection \<open>The operations of the core, in sequence\<close>

datatype core_op =
    Initialize
  | Commit json string
  | Clear
  | Receive outcome

fun core_step ::
  "(string \<Rightarrow> json option) \<Rightarrow> (json \<Rightarrow> string) \<Rightarrow> core_op \<Rightarrow> auth_state \<times> env \<Rightarrow> auth_state \<times> env" where
  "core_step parse stringify Initialize (h, e) = (useAuth_effect parse e h, e)"
| "core_step parse stringify (Commit u token) (h, e) = setUserAndToken stringify u token (h, e)"
| "core_step parse stringify Clear (h, e) = logout (h, e)"
| "core_step parse stringify (Receive out) (h, e) = (h, fst (response_interceptor e out))"

fun core_run ::
  "(string \<Rightarrow> json option) \<Rightarrow> (json \<Rightarrow> string) \<Rightarrow> core_op list \<Rightarrow> auth_state \<times> env \<Rightarrow> auth_state \<times> env" where
  "core_run parse stringify [] s = s"
| "core_run parse stringify (op # ops) s = core_run parse stringify ops (core_step parse stringify op s)"

text \<open>Persisted storage holds the identity entry and the credential entry, or neither.\<close>

definition paired :: "env \<Rightarrow> bool" where
  "paired e = ((persisted e ''user'' = None) = (persisted e ''token'' = None))"

section \<open>The protected pages\<close>

text \<open>
  What the guard effect of a page does when it runs (a navigation through the router, a
  first request for the data of the page, or nothing), and what the render of the page
  gives: nothing, a spinner, the content, or an exception.
\<close>

datatype page_action = NoAction | RouterPush string | ApiGet string

datatype view = Nothing | Spinner | Content | Throws

text \<open>
  app/dashboard/worker-profile/page.tsx:
  \<^verbatim>\<open>useEffect(() => { if (authLoading) return;
     if (!user) { router.push("/login"); return; }
     if (user.role !== "worker") { router.push("/dashboard"); return; }
     constants.serviceTypes()... }, [user, authLoading, router]);
  if (authLoading || !user) return null;
  if (user.role !== "worker") return null;\<close>
\<close>

definition WorkerProfilePage_effect :: "auth_state \<Rightarrow> page_action" where
  "WorkerProfilePage_effect h =
     (if loading h then NoAction
      else if \<not> truthy (user h) then RouterPush ''/login''
      else if get_prop (user h) ''role'' \<noteq> Some (JStr ''worker'') then RouterPush ''/dashboard''
      else ApiGet ''/api/constants/service-types'')"

definition WorkerProfilePage_render :: "auth_state \<Rightarrow> view" where
  "WorkerProfilePage_render h =
     (if loading h \<or> \<not> truthy (user h) then Nothing
      else if get_prop (user h) ''role'' \<noteq> Some (JStr ''worker'') then Nothing
      else Content)"

text \<open>
  The tutor profile page has the same guard with \<^verbatim>\<open>"tutor"\<close>. Past its early
  returns its render reads \<^verbatim>\<open>price\<close> and \<^verbatim>\<open>setPrice\<close>
  (\<^verbatim>\<open>value={price}\<close>), which the component never declares: for a loaded tutor the
  render throws a \<^verbatim>\<open>ReferenceError\<close>, nothing is committed, and the effect of that
  render does not run.
\<close>

definition TutorProfilePage_effect :: "auth_state \<Rightarrow> page_action" where
  "TutorProfilePage_effect h =
     (if loading h then NoAction
      else if \<not> truthy (user h) then RouterPush ''/login''
      else if get_prop (user h) ''role'' \<noteq> Some (JStr ''tutor'') then RouterPush ''/dashboard''
      else NoAction)"

definition TutorProfilePage_render :: "auth_state \<Rightarrow> view" where
  "TutorProfilePage_render h =
     (if loading h \<or> \<not> truthy (user h) then Nothing
      else if get_prop (user h) ''role'' \<noteq> Some (JStr ''tutor'') then Nothing
      else Throws)"

text \<open>
  The search page:
  \<^verbatim>\<open>useEffect(() => { if (authLoading) return;
     if (!user) { router.push("/login"); return; }
     constants.serviceTypes()... }, [user, authLoading, router]);
  if (authLoading || !user) return null;\<close>
\<close>

definition SearchPage_effect :: "auth_state \<Rightarrow> page_action" where
  "SearchPage_effect h =
     (if loading h then NoAction
      else if \<not> truthy (user h) then RouterPush ''/login''
      else ApiGet ''/api/constants/service-types'')"

definition SearchPage_render :: "auth_state \<Rightarrow> view" where
  "SearchPage_render h = (if loading h \<or> \<not> truthy (user h) then Nothing else Content)"

text \<open>
  The dashboard, which has a loading flag of its own for its first request:
  \<^verbatim>\<open>useEffect(() => { if (authLoading) return;
     if (!user) { router.push("/login"); return; }
     const load = async () => { ... await bookings.list() ... }; load(); }, [...]);
  if (authLoading || !user) return null;
  if (loading) return (spinner);\<close>
\<close>

definition DashboardPage_effect :: "auth_state \<Rightarrow> page_action" where
  "DashboardPage_effect h =
     (if loading h then NoAction
      else if \<not> truthy (user h) then RouterPush ''/login''
      else ApiGet ''/api/bookings'')"

definition DashboardPage_render :: "bool \<Rightarrow> auth_state \<Rightarrow> view" where
  "DashboardPage_render page_loading h =
     (if loading h \<or> \<not> truthy (user h) then Nothing
      else if page_loading then Spinner
      else Content)"

text \<open>The four pages together, and the role literal a page compares
  \<^verbatim>\<open>user.role\<close> with (the search page and the dashboard compare none).\<close>

datatype page = SearchPage | DashboardPage | WorkerProfilePage | TutorProfilePage

fun page_effect :: "page \<Rightarrow> auth_state \<Rightarrow> page_action" where
  "page_effect SearchPage h = SearchPage_effect h"
| "page_effect DashboardPage h = DashboardPage_effect h"
| "page_effect WorkerProfilePage h = WorkerProfilePage_effect h"
| "page_effect TutorProfilePage h = TutorProfilePage_effect h"

fun page_render :: "page \<Rightarrow> bool \<Rightarrow> auth_state \<Rightarrow> view" where
  "page_render SearchPage page_loading h = SearchPage_render h"
| "page_render DashboardPage page_loading h = DashboardPage_render page_loading h"
| "page_render WorkerProfilePage page_loading h = WorkerProfilePage_render h"
| "page_render TutorProfilePage page_loading h = TutorProfilePage_render h"

fun required_role :: "page \<Rightarrow> string option" where
  "required_role SearchPage = None"
| "required_role DashboardPage = None"
| "required_role WorkerProfilePage = Some ''worker''"
| "required_role TutorProfilePage = Some ''tutor''"

subsection \<open>Submitting the worker profile form\<close>

text \<open>
  The state of the form (the selected service type, the text of the price input, the
  chosen file or \<^verbatim>\<open>null\<close>) and the request its submission issues:
  \<^verbatim>\<open>await workers.createProfile(serviceType, idDocument || undefined);\<close>
  The call passes two arguments, so the second one lands in the parameter
  \<^verbatim>\<open>price\<close> and the parameter \<^verbatim>\<open>idDocument\<close> is \<^verbatim>\<open>undefined\<close>.
\<close>

record worker_form =
  form_serviceType :: string
  form_price :: string
  form_idDocument :: "js_file option"

definition WorkerProfilePage_handleSubmit :: "worker_form \<Rightarrow> form_data request_config" where
  "WorkerProfilePage_handleSubmit f =
     workers_createProfile (form_serviceType f)
       (case form_idDocument f of None \<Rightarrow> Undefined | Some d \<Rightarrow> FileObject d)
       Undefined"

section \<open>Example inputs\<close>

text \<open>The identity and the credential of the scenarios, a browser that holds them, a
  browser with empty storage, a rejected response, a request, and the hook of a mounted
  component that found no stored identity.\<close>

definition alice :: User where
  "alice = \<lparr>uid = Decimal 1 0, name = ''A'', email = ''a@example.com'', role = Customer,
            trust_score = Decimal 0 0, created_at = ''2024-01-01T00:00:00Z''\<rparr>"

definition browser_alice :: browser where
  "browser_alice =
     \<lparr>localStorage = [''user'' \<mapsto> JSON_stringify (user_value alice), ''token'' \<mapsto> ''tok123''],
      location_href = ''/search''\<rparr>"

definition browser_empty :: browser where
  "browser_empty = \<lparr>localStorage = Map.empty, location_href = ''/login''\<rparr>"

definition resp_401 :: response where
  "resp_401 = \<lparr>resp_status = 401, resp_data = ''Could not validate credentials''\<rparr>"

definition search_request :: "unit request_config" where
  "search_request =
     \<lparr>req_method = ''get'', req_url = ''/api/providers/search'',
      req_headers = [''Content-Type'' \<mapsto> ''application/json''], req_data = ()\<rparr>"

definition mounted_guest :: auth_state where
  "mounted_guest = useAuth_effect JSON_parse (Some browser_empty) useAuth_initial"

definition plumber_form :: worker_form where
  "plumber_form =
     \<lparr>form_serviceType = ''plumbing'', form_price = ''500'', form_idDocument = Some (File ''id.pdf'')\<rparr>"

section \<open>The codec returns what it was given\<close>








































lemma JSON_parse_not_json: "JSON_parse ''{not json'' = None"
  by (simp add: JSON_parse_def is_ws_def is_digit_def strip_prefix_def)

section \<open>The request pipeline: properties\<close>

lemma persisted_Some: "persisted (Some w) k = localStorage w k"
  by (simp add: persisted_def getItem_def)

lemma persisted_None: "persisted None k = None"
  by (simp add: persisted_def)

text \<open>
  C1. For every response that arrives through the pipeline: when its status is 401, the
  call is rejected with the error that carries the response, that error reaches the caller
  as it is, both persisted entries (keys "user" and "token") are gone afterwards, and,
  wherever a browser exists, it has been sent to /login; for a response with any other
  status, fulfilled or rejected, and for a failure without a response, the outcome reaches
  the caller as it is and the environment, persisted storage included, is unchanged.
\<close>

theorem response_interceptor_401:
  "snd (response_interceptor e out) = out
   \<and> (resp_status r = 401 \<longrightarrow>
        settle r = Rejected \<lparr>err_message = ''Request failed'', err_response = Some r\<rparr>
        \<and> persisted (fst (response_interceptor e (settle r))) ''user'' = None
        \<and> persisted (fst (response_interceptor e (settle r))) ''token'' = None
        \<and> current_href (fst (response_interceptor (Some w) (settle r))) = Some ''/login'')
   \<and> (resp_status r \<noteq> 401 \<longrightarrow> response_interceptor e (settle r) = (e, settle r))
   \<and> (err_response err = None \<longrightarrow> response_interceptor e (Rejected err) = (e, Rejected err))"
proof (intro conjI impI)
  show "snd (response_interceptor e out) = out"
    by (cases out; cases e) (simp_all add: response_interceptor_def)
next
  assume "resp_status r \<noteq> 401"
  then show "response_interceptor e (settle r) = (e, settle r)"
    by (cases e) (simp_all add: response_interceptor_def settle_def)
next
  assume "err_response err = None"
  then show "response_interceptor e (Rejected err) = (e, Rejected err)"
    by (cases e) (simp_all add: response_interceptor_def)
next
  assume s: "resp_status r = 401"
  then show rej: "settle r = Rejected \<lparr>err_message = ''Request failed'', err_response = Some r\<rparr>"
    by (simp add: settle_def)
  have unauth: "fst (response_interceptor (Some b) (settle r)) =
      Some ((removeItem (removeItem b ''token'') ''user'')\<lparr>location_href := ''/login''\<rparr>)" for b
    using s by (simp add: rej response_interceptor_def)
  have server: "fst (response_interceptor None (settle r)) = None"
    by (simp add: rej response_interceptor_def)
  show "persisted (fst (response_interceptor e (settle r))) ''user'' = None"
    by (cases e) (simp_all add: unauth server persisted_Some persisted_None removeItem_def)
  show "persisted (fst (response_interceptor e (settle r))) ''token'' = None"
    by (cases e) (simp_all add: unauth server persisted_Some persisted_None removeItem_def)
  show "current_href (fst (response_interceptor (Some w) (settle r))) = Some ''/login''"
    by (simp add: unauth current_href_def)
qed

theorem response_interceptor_401_witness:
  "resp_status resp_401 = 401
   \<and> persisted (Some browser_alice) ''token'' = Some ''tok123''
   \<and> persisted (fst (response_interceptor (Some browser_alice) (settle resp_401))) ''user'' = None
   \<and> persisted (fst (response_interceptor (Some browser_alice) (settle resp_401))) ''token'' = None
   \<and> current_href (fst (response_interceptor (Some browser_alice) (settle resp_401))) = Some ''/login''
   \<and> snd (response_interceptor (Some browser_alice) (settle resp_401)) = settle resp_401"
proof -
  have h: "resp_status resp_401 = 401"
    by (simp add: resp_401_def)
  have before: "persisted (Some browser_alice) ''token'' = Some ''tok123''"
    by (simp add: persisted_Some browser_alice_def)
  from h before
    response_interceptor_401 [of "Some browser_alice" "settle resp_401" resp_401 browser_alice
      "\<lparr>err_message = [], err_response = None\<rparr>"]
  show ?thesis by blast
qed

text \<open>
  C2. For every outgoing request: when persisted storage holds a credential (a non-empty
  token under the key "token"), the request leaves the interceptor with the header
  Authorization set to "Bearer " followed by that credential and is otherwise the request
  that entered; when persisted storage holds no credential (no entry, or an empty one), the
  request leaves exactly as it entered, so no Authorization header is attached.
\<close>

theorem request_interceptor_attaches_bearer:
  "(persisted e ''token'' = Some token \<and> token \<noteq> [] \<longrightarrow>
      req_headers (request_interceptor e config) ''Authorization'' = Some (''Bearer '' @ token)
      \<and> request_interceptor e config
          = config\<lparr>req_headers := (req_headers config)(''Authorization'' \<mapsto> ''Bearer '' @ token)\<rparr>)
   \<and> (persisted e ''token'' = None \<or> persisted e ''token'' = Some [] \<longrightarrow>
        request_interceptor e config = config)"
  by (cases e) (auto simp: request_interceptor_def persisted_def)

theorem request_interceptor_attaches_bearer_witness:
  "persisted (Some browser_alice) ''token'' = Some ''tok123'' \<and> ''tok123'' \<noteq> []
   \<and> req_headers (request_interceptor (Some browser_alice) search_request) ''Authorization''
       = Some ''Bearer tok123''
   \<and> persisted (Some browser_empty) ''token'' = None
   \<and> request_interceptor (Some browser_empty) search_request = search_request
   \<and> req_headers search_request ''Authorization'' = None"
proof -
  have a: "persisted (Some browser_alice) ''token'' = Some ''tok123'' \<and> ''tok123'' \<noteq> []"
    by (simp add: persisted_Some browser_alice_def)
  have b: "persisted (Some browser_empty) ''token'' = None"
    by (simp add: persisted_Some browser_empty_def)
  have c: "req_headers search_request ''Authorization'' = None"
    by (simp add: search_request_def)
  from a b c
    request_interceptor_attaches_bearer [of "Some browser_alice" "''tok123''" search_request]
    request_interceptor_attaches_bearer [of "Some browser_empty" "''tok123''" search_request]
  show ?thesis by simp
qed

text \<open>
  C10. When the persisted credential entry exists and holds the empty string, the outbound
  interceptor attaches no Authorization header: the request leaves as it entered.
\<close>

theorem empty_token_attaches_nothing:
  "persisted e ''token'' = Some [] \<Longrightarrow> request_interceptor e config = config"
  by (cases e) (simp_all add: request_interceptor_def persisted_def)

theorem empty_token_attaches_nothing_witness:
  "persisted (Some (setItem browser_empty ''token'' [])) ''token'' = Some []
   \<and> request_interceptor (Some (setItem browser_empty ''token'' [])) search_request = search_request
   \<and> req_headers (request_interceptor (Some (setItem browser_empty ''token'' [])) search_request)
        ''Authorization'' = None"
proof -
  have a: "persisted (Some (setItem browser_empty ''token'' [])) ''token'' = Some []"
    by (simp add: persisted_Some setItem_def)
  from a empty_token_attaches_nothing [OF a, of search_request]
  show ?thesis by (simp add: search_request_def)
qed

lemma show_decimal_500: "show_decimal (Decimal 500 0) = ''500''"
  by code_simp

lemma WorkerProfilePage_handleSubmit_body:
  "req_data (WorkerProfilePage_handleSubmit f) =
     [(''service_type'', FormText (form_serviceType f)),
      (''price'', FormText (case form_idDocument f of None \<Rightarrow> ''undefined'' | Some d \<Rightarrow> ''[object File]''))]"
  by (cases "form_idDocument f")
     (simp_all add: WorkerProfilePage_handleSubmit_def workers_createProfile_def api_post_def)

text \<open>
  C3. Submitting the worker profile form with the service type "plumbing", the price "500"
  and the file id.pdf posts to /api/workers/profile a form of two entries: the service type,
  and under "price" the text "[object File]". The price that was entered and the file are
  not in it. Called with its three arguments, \<^verbatim>\<open>workers.createProfile\<close> sends all
  three.
\<close>

theorem worker_submit_drops_price_and_document:
  "req_method (WorkerProfilePage_handleSubmit plumber_form) = ''post''
   \<and> req_url (WorkerProfilePage_handleSubmit plumber_form) = ''/api/workers/profile''
   \<and> req_data (WorkerProfilePage_handleSubmit plumber_form)
       = [(''service_type'', FormText ''plumbing''), (''price'', FormText ''[object File]'')]
   \<and> req_data (workers_createProfile ''plumbing'' (Number (Decimal 500 0)) (FileObject (File ''id.pdf'')))
       = [(''service_type'', FormText ''plumbing''), (''price'', FormText ''500''),
          (''id_document'', FormFile (File ''id.pdf''))]"
  by (simp add: WorkerProfilePage_handleSubmit_def workers_createProfile_def api_post_def
        plumber_form_def show_decimal_500 del: show_decimal.simps)

section \<open>The session store: properties\<close>

lemma mounted_guest_eq: "mounted_guest = \<lparr>user = JNull, loading = False\<rparr>"
  by (simp add: mounted_guest_def useAuth_effect_def useAuth_initial_def browser_empty_def getItem_def)



lemma JSON_parse_five: "JSON_parse ''5'' = Some (JNum (Decimal 5 0))"
  by code_simp

lemma JSON_parse_empty_object: "JSON_parse ''{}'' = Some (JObj [])"
  by code_simp

text \<open>
  C7. For every persisted identity value on which the parser fails (it raises, as on the
  text "{not json"), initialization ends with the current Identity absent and the loading
  flag false, and nothing is raised: the failure of the parser is the only one on this path
  and the effect turns it into the absent Identity. A persisted value that is not empty and
  that the parser accepts is adopted as the current Identity as it was parsed, whatever its
  shape, with the loading flag false.
\<close>

theorem unparseable_identity_is_absent:
  "persisted e ''user'' = Some stored \<Longrightarrow>
     (parse stored = None \<longrightarrow>
        useAuth_effect parse e useAuth_initial = \<lparr>user = JNull, loading = False\<rparr>)
     \<and> (stored \<noteq> [] \<and> parse stored = Some v \<longrightarrow>
        useAuth_effect parse e useAuth_initial = \<lparr>user = v, loading = False\<rparr>)"
  by (cases e) (simp_all add: useAuth_effect_def useAuth_initial_def persisted_def)

theorem unparseable_identity_is_absent_witness:
  "persisted (Some (setItem browser_empty ''user'' ''{not json'')) ''user'' = Some ''{not json''
   \<and> JSON_parse ''{not json'' = None
   \<and> useAuth_effect JSON_parse (Some (setItem browser_empty ''user'' ''{not json'')) useAuth_initial
       = \<lparr>user = JNull, loading = False\<rparr>
   \<and> persisted (Some (setItem browser_empty ''user'' ''{}'')) ''user'' = Some ''{}''
   \<and> ''{}'' \<noteq> [] \<and> JSON_parse ''{}'' = Some (JObj [])
   \<and> useAuth_effect JSON_parse (Some (setItem browser_empty ''user'' ''{}'')) useAuth_initial
       = \<lparr>user = JObj [], loading = False\<rparr>"
proof -
  have a: "persisted (Some (setItem browser_empty ''user'' ''{not json'')) ''user'' = Some ''{not json''"
    by (simp add: persisted_Some setItem_def)
  have b: "persisted (Some (setItem browser_empty ''user'' ''{}'')) ''user'' = Some ''{}''"
    by (simp add: persisted_Some setItem_def)
  from a b JSON_parse_not_json JSON_parse_empty_object
    unparseable_identity_is_absent
      [of "Some (setItem browser_empty ''user'' ''{not json'')" "''{not json''" JSON_parse "JObj []"]
    unparseable_identity_is_absent
      [of "Some (setItem browser_empty ''user'' ''{}'')" "''{}''" JSON_parse "JObj []"]
  show ?thesis by simp
qed

text \<open>
  A persisted value that parses without being an Identity is not treated as absent. The
  text "5" parses to the number 5, which has no id and no role; initialization keeps it
  as the current user, it passes the test for a present Identity, and the search page
  starts its first request and renders its content.
\<close>

theorem stored_number_adopted_as_identity:
  "persisted (Some (setItem browser_empty ''user'' ''5'')) ''user'' = Some ''5''
   \<and> JSON_parse ''5'' = Some (JNum (Decimal 5 0))
   \<and> get_prop (JNum (Decimal 5 0)) ''id'' = None
   \<and> get_prop (JNum (Decimal 5 0)) ''role'' = None
   \<and> useAuth_effect JSON_parse (Some (setItem browser_empty ''user'' ''5'')) useAuth_initial
       = \<lparr>user = JNum (Decimal 5 0), loading = False\<rparr>
   \<and> JNum (Decimal 5 0) \<noteq> JNull
   \<and> truthy (JNum (Decimal 5 0))
   \<and> SearchPage_effect \<lparr>user = JNum (Decimal 5 0), loading = False\<rparr>
       = ApiGet ''/api/constants/service-types''
   \<and> SearchPage_render \<lparr>user = JNum (Decimal 5 0), loading = False\<rparr> = Content"
  by (simp add: JSON_parse_five persisted_Some setItem_def useAuth_effect_def useAuth_initial_def
        getItem_def SearchPage_effect_def SearchPage_render_def)

text \<open>
  C8. After Clear (logout), whatever the state before: the hook keeps its loading flag and
  reports no Identity; a browser is the browser it was with the two entries "user" and
  "token" removed from its storage and nothing else changed, and without a browser there
  is nothing to remove; so neither persisted entry is in storage, and a request that passes
  the outbound interceptor afterwards leaves it as it entered, with no credential attached.
\<close>

theorem logout_clears_session:
  "logout (h, None) = (h\<lparr>user := JNull\<rparr>, None)
   \<and> logout (h, Some w)
       = (h\<lparr>user := JNull\<rparr>,
          Some (w\<lparr>localStorage := (localStorage w)(''user'' := None, ''token'' := None)\<rparr>))
   \<and> persisted (snd (logout (h, e))) ''user'' = None
   \<and> persisted (snd (logout (h, e))) ''token'' = None
   \<and> user (fst (logout (h, e))) = JNull
   \<and> \<not> truthy (user (fst (logout (h, e))))
   \<and> request_interceptor (snd (logout (h, e))) config = config"
  by (cases e) (simp_all add: logout_def persisted_def getItem_def removeItem_def request_interceptor_def)

theorem logout_clears_session_witness:
  "persisted (Some browser_alice) ''token'' = Some ''tok123''
   \<and> persisted (Some browser_alice) ''user'' = Some (JSON_stringify (user_value alice))
   \<and> current_href (snd (logout (\<lparr>user = user_value alice, loading = False\<rparr>, Some browser_alice)))
       = Some ''/search''
   \<and> persisted (snd (logout (\<lparr>user = user_value alice, loading = False\<rparr>, Some browser_alice))) ''user'' = None
   \<and> persisted (snd (logout (\<lparr>user = user_value alice, loading = False\<rparr>, Some browser_alice))) ''token'' = None
   \<and> fst (logout (\<lparr>user = user_value alice, loading = False\<rparr>, Some browser_alice))
       = \<lparr>user = JNull, loading = False\<rparr>
   \<and> request_interceptor (snd (logout (\<lparr>user = user_value alice, loading = False\<rparr>, Some browser_alice)))
        search_request = search_request"
proof -
  note t = logout_clears_session
    [of "\<lparr>user = user_value alice, loading = False\<rparr>" browser_alice "Some browser_alice" search_request]
  have a: "persisted (Some browser_alice) ''token'' = Some ''tok123''
      \<and> persisted (Some browser_alice) ''user'' = Some (JSON_stringify (user_value alice))"
    by (simp add: persisted_Some browser_alice_def)
  from t have eq: "logout (\<lparr>user = user_value alice, loading = False\<rparr>, Some browser_alice)
       = (\<lparr>user = user_value alice, loading = False\<rparr>\<lparr>user := JNull\<rparr>,
          Some (browser_alice\<lparr>localStorage :=
                  (localStorage browser_alice)(''user'' := None, ''token'' := None)\<rparr>))"
    by blast
  have href: "current_href (snd (logout (\<lparr>user = user_value alice, loading = False\<rparr>, Some browser_alice)))
       = Some ''/search''"
    unfolding eq by (simp add: current_href_def browser_alice_def)
  have cells: "fst (logout (\<lparr>user = user_value alice, loading = False\<rparr>, Some browser_alice))
       = \<lparr>user = JNull, loading = False\<rparr>"
    unfolding eq by simp
  from a t href cells show ?thesis by blast
qed

lemma paired_response_interceptor: "paired e \<Longrightarrow> paired (fst (response_interceptor e out))"
  by (cases out; cases e)
     (simp_all add: response_interceptor_def paired_def persisted_def getItem_def removeItem_def)

lemma paired_core_step: "paired (snd s) \<Longrightarrow> paired (snd (core_step parse stringify op s))"
proof (cases s)
  case (Pair h e)
  assume "paired (snd s)"
  with Pair have p: "paired e" by simp
  show ?thesis
  proof (cases op)
    case Initialize
    with Pair p show ?thesis by simp
  next
    case (Commit u token)
    with Pair show ?thesis
      by (cases e) (simp_all add: setUserAndToken_def paired_def persisted_def getItem_def setItem_def)
  next
    case Clear
    with Pair show ?thesis
      by (cases e) (simp_all add: logout_def paired_def persisted_def getItem_def removeItem_def)
  next
    case (Receive out)
    with Pair p show ?thesis by (simp add: paired_response_interceptor)
  qed
qed

text \<open>
  C5. Starting from a storage that holds both the identity entry and the credential entry,
  or neither, every sequence of operations of the core (Initialize, Commit, Clear and the
  handling of a response by the pipeline) ends with a storage that holds both or neither.
\<close>

theorem core_operations_keep_entries_paired:
  "paired e \<Longrightarrow> paired (snd (core_run parse stringify ops (h, e)))"
proof -
  have "paired (snd s) \<Longrightarrow> paired (snd (core_run parse stringify ops s))" for s
  proof (induction ops arbitrary: s)
    case Nil
    then show ?case by simp
  next
    case (Cons op ops)
    from Cons.prems have "paired (snd (core_step parse stringify op s))"
      by (rule paired_core_step)
    then show ?case
      using Cons.IH by simp
  qed
  from this [of "(h, e)"] show "paired e \<Longrightarrow> ?thesis" by simp
qed

theorem core_operations_keep_entries_paired_witness:
  "paired (Some browser_empty)
   \<and> paired (snd (core_run JSON_parse JSON_stringify
        [Initialize, Commit (user_value alice) ''tok123'', Receive (settle resp_401), Initialize,
         Commit (user_value alice) ''tok456'', Clear]
        (useAuth_initial, Some browser_empty)))"
proof -
  have a: "paired (Some browser_empty)"
    by (simp add: paired_def persisted_Some browser_empty_def)
  from a core_operations_keep_entries_paired [OF a] show ?thesis by blast
qed




section \<open>The protected pages: properties\<close>

text \<open>
  C9. For each of the four protected pages and every Session: while the Session is loading,
  the guard does nothing and the page renders nothing; once loading is over and no Identity
  is present, the guard navigates to /login and the page renders nothing; once loading is
  over with an Identity whose role is not the one the page requires, the guard navigates to
  /dashboard and the page renders nothing.
\<close>

theorem page_guard_contract:
  "(loading h \<longrightarrow> page_effect p h = NoAction \<and> page_render p page_loading h = Nothing)
   \<and> (\<not> loading h \<and> \<not> truthy (user h) \<longrightarrow>
        page_effect p h = RouterPush ''/login'' \<and> page_render p page_loading h = Nothing)
   \<and> (\<not> loading h \<and> truthy (user h) \<and> required_role p = Some r
        \<and> get_prop (user h) ''role'' \<noteq> Some (JStr r) \<longrightarrow>
        page_effect p h = RouterPush ''/dashboard'' \<and> page_render p page_loading h = Nothing)"
  by (cases p)
     (auto simp: SearchPage_effect_def SearchPage_render_def DashboardPage_effect_def
        DashboardPage_render_def WorkerProfilePage_effect_def WorkerProfilePage_render_def
        TutorProfilePage_effect_def TutorProfilePage_render_def)

theorem page_guard_contract_witness:
  "loading useAuth_initial
   \<and> page_effect DashboardPage useAuth_initial = NoAction
   \<and> page_render DashboardPage True useAuth_initial = Nothing
   \<and> \<not> loading mounted_guest \<and> \<not> truthy (user mounted_guest)
   \<and> page_effect SearchPage mounted_guest = RouterPush ''/login''
   \<and> page_render SearchPage False mounted_guest = Nothing
   \<and> \<not> loading \<lparr>user = user_value alice, loading = False\<rparr>
   \<and> truthy (user \<lparr>user = user_value alice, loading = False\<rparr>)
   \<and> required_role WorkerProfilePage = Some ''worker''
   \<and> get_prop (user \<lparr>user = user_value alice, loading = False\<rparr>) ''role'' \<noteq> Some (JStr ''worker'')
   \<and> page_effect WorkerProfilePage \<lparr>user = user_value alice, loading = False\<rparr> = RouterPush ''/dashboard''
   \<and> page_render WorkerProfilePage False \<lparr>user = user_value alice, loading = False\<rparr> = Nothing"
proof -
  have a: "loading useAuth_initial"
    by (simp add: useAuth_initial_def)
  have b: "\<not> loading mounted_guest \<and> \<not> truthy (user mounted_guest)"
    by (simp add: mounted_guest_eq)
  have c: "\<not> loading \<lparr>user = user_value alice, loading = False\<rparr>
      \<and> truthy (user \<lparr>user = user_value alice, loading = False\<rparr>)
      \<and> required_role WorkerProfilePage = Some ''worker''
      \<and> get_prop (user \<lparr>user = user_value alice, loading = False\<rparr>) ''role'' \<noteq> Some (JStr ''worker'')"
    by (simp add: user_value_def alice_def)
  from a b c
    page_guard_contract [of useAuth_initial DashboardPage True "''worker''"]
    page_guard_contract [of mounted_guest SearchPage False "''worker''"]
    page_guard_contract [of "\<lparr>user = user_value alice, loading = False\<rparr>" WorkerProfilePage False "''worker''"]
  show ?thesis by blast
qed

end
